theory Spec2Isabelle
  imports Main "HOL-Library.Word"
begin

unbundle bit_operations_syntax

section \<open>The unrardll wrapper (wrapper.cpp) as HOL functions\<close>

text \<open>
  The wrapper sits between the Python runtime and the UnRAR library. Both are outside
  the repository, so every call into them is an input of the model: the status a native
  call returns, the callbacks it makes on the way, what a Python method call gives back,
  what \<^verbatim>\<open>write\<close> answers. The wrapper's own code (the switch statements, the
  write loop, the capsule teardown, the header decoding) is translated as written, for
  the LP64 data model of the Linux build: \<^verbatim>\<open>unsigned int\<close> and \<^verbatim>\<open>int\<close> are 32 bits,
  \<^verbatim>\<open>unsigned long\<close>, \<^verbatim>\<open>size_t\<close>, \<^verbatim>\<open>ssize_t\<close> and \<^verbatim>\<open>LPARAM\<close> are 64 bits,
  \<^verbatim>\<open>wchar_t\<close> is 32 bits.
\<close>

type_synonym uint = "32 word"
type_synonym cint = "32 word"
type_synonym ulong = "64 word"
type_synonym wchar = "32 word"
type_synonym byte = "8 word"
type_synonym addr = nat

subsection \<open>Constants of unrar/dll.hpp\<close>

text \<open>
  The wrapper includes \<^verbatim>\<open>unrar/dll.hpp\<close>, the header of the UnRAR library. The
  constants below carry the values that header gives them.
\<close>

definition ERAR_SUCCESS :: uint where "ERAR_SUCCESS = 0"
definition ERAR_END_ARCHIVE :: uint where "ERAR_END_ARCHIVE = 10"
definition ERAR_NO_MEMORY :: uint where "ERAR_NO_MEMORY = 11"
definition ERAR_BAD_DATA :: uint where "ERAR_BAD_DATA = 12"
definition ERAR_BAD_ARCHIVE :: uint where "ERAR_BAD_ARCHIVE = 13"
definition ERAR_UNKNOWN_FORMAT :: uint where "ERAR_UNKNOWN_FORMAT = 14"
definition ERAR_EOPEN :: uint where "ERAR_EOPEN = 15"
definition ERAR_ECREATE :: uint where "ERAR_ECREATE = 16"
definition ERAR_ECLOSE :: uint where "ERAR_ECLOSE = 17"
definition ERAR_EREAD :: uint where "ERAR_EREAD = 18"
definition ERAR_EWRITE :: uint where "ERAR_EWRITE = 19"
definition ERAR_SMALL_BUF :: uint where "ERAR_SMALL_BUF = 20"
definition ERAR_UNKNOWN :: uint where "ERAR_UNKNOWN = 21"
definition ERAR_MISSING_PASSWORD :: uint where "ERAR_MISSING_PASSWORD = 22"
definition ERAR_EREFERENCE :: uint where "ERAR_EREFERENCE = 23"
definition ERAR_BAD_PASSWORD :: uint where "ERAR_BAD_PASSWORD = 24"

definition UCM_CHANGEVOLUME :: uint where "UCM_CHANGEVOLUME = 0"
definition UCM_PROCESSDATA :: uint where "UCM_PROCESSDATA = 1"
definition UCM_NEEDPASSWORD :: uint where "UCM_NEEDPASSWORD = 2"
definition UCM_CHANGEVOLUMEW :: uint where "UCM_CHANGEVOLUMEW = 3"
definition UCM_NEEDPASSWORDW :: uint where "UCM_NEEDPASSWORDW = 4"

definition RAR_VOL_NOTIFY :: ulong where "RAR_VOL_NOTIFY = 1"
definition RAR_TEST :: uint where "RAR_TEST = 1"
definition RHDF_DIRECTORY :: uint where "RHDF_DIRECTORY = 0x20"

subsection \<open>Python exceptions and the error translator\<close>

text \<open>
  A Python exception is its type and its message. \<^verbatim>\<open>UNRARError\<close> is the module's
  own exception type; the others are Python's.
\<close>

datatype pyexc =
    UNRARError string
  | MemoryError string
  | TypeError string
  | SystemError string

text \<open>
  \<^verbatim>\<open>convert_rar_error\<close> sets the Python error indicator and returns nothing: the
  model returns the exception it sets. The macro \<^verbatim>\<open>CASE(x)\<close> raises \<^verbatim>\<open>UNRARError\<close>
  with the name of the constant as the message; \<^verbatim>\<open>NOMEM\<close> raises \<^verbatim>\<open>MemoryError\<close>
  with the line number of its use (line 67).
\<close>

definition convert_rar_error :: "uint \<Rightarrow> pyexc" where
  "convert_rar_error code =
    (if code = ERAR_SUCCESS then UNRARError ''ERAR_SUCCESS''
     else if code = ERAR_END_ARCHIVE then UNRARError ''ERAR_END_ARCHIVE''
     else if code = ERAR_BAD_DATA then UNRARError ''ERAR_BAD_DATA''
     else if code = ERAR_BAD_ARCHIVE then UNRARError ''ERAR_BAD_ARCHIVE''
     else if code = ERAR_UNKNOWN_FORMAT then UNRARError ''ERAR_UNKNOWN_FORMAT''
     else if code = ERAR_EOPEN then UNRARError ''ERAR_EOPEN''
     else if code = ERAR_ECREATE then UNRARError ''ERAR_ECREATE''
     else if code = ERAR_ECLOSE then UNRARError ''ERAR_ECLOSE''
     else if code = ERAR_EREAD then UNRARError ''ERAR_EREAD''
     else if code = ERAR_EWRITE then UNRARError ''ERAR_EWRITE''
     else if code = ERAR_SMALL_BUF then UNRARError ''ERAR_SMALL_BUF''
     else if code = ERAR_UNKNOWN then UNRARError ''ERAR_UNKNOWN''
     else if code = ERAR_MISSING_PASSWORD then UNRARError ''ERAR_MISSING_PASSWORD''
     else if code = ERAR_EREFERENCE then UNRARError ''ERAR_EREFERENCE''
     else if code = ERAR_BAD_PASSWORD then UNRARError ''ERAR_BAD_PASSWORD''
     else if code = ERAR_NO_MEMORY then MemoryError ''Out of memory at line number: 67''
     else UNRARError ''Unknown error'')"

subsection \<open>Value marshaling\<close>

text \<open>
  \<^verbatim>\<open>combine\<close> widens \<^verbatim>\<open>h\<close> to \<^verbatim>\<open>unsigned long\<close>, shifts it left by 32 and ors
  \<^verbatim>\<open>l\<close> in (widened by the usual arithmetic conversions).
\<close>

definition combine :: "uint \<Rightarrow> uint \<Rightarrow> ulong" where
  "combine h l = (let ans = (ucast h :: ulong) in push_bit 32 ans OR ucast l)"

subsection \<open>Python values and the outcome of a Python call\<close>

text \<open>
  The Python objects the wrapper meets. \<^verbatim>\<open>PyOther\<close> stands for an object of any other
  type; it carries what \<^verbatim>\<open>PyObject_IsTrue\<close> answers for it: 1, 0, or -1 when its
  truth test raises.
\<close>

datatype truth = Truthy | Falsy | TruthError

datatype pyvalue =
    PyNone
  | PyBool bool
  | PyLong int
  | PyUnicode "wchar list"
  | PyOther truth

definition PyUnicode_Check :: "pyvalue \<Rightarrow> bool" where
  "PyUnicode_Check v = (case v of PyUnicode s \<Rightarrow> True | _ \<Rightarrow> False)"

definition PyObject_IsTrue :: "pyvalue \<Rightarrow> int" where
  "PyObject_IsTrue v =
    (case v of
       PyNone \<Rightarrow> 0
     | PyBool b \<Rightarrow> (if b then 1 else 0)
     | PyLong n \<Rightarrow> (if n = 0 then 0 else 1)
     | PyUnicode s \<Rightarrow> (if s = [] then 0 else 1)
     | PyOther Truthy \<Rightarrow> 1
     | PyOther Falsy \<Rightarrow> 0
     | PyOther TruthError \<Rightarrow> - 1)"

text \<open>
  What \<^verbatim>\<open>PyObject_CallMethod\<close> leaves behind: whether the error indicator is set
  (\<^verbatim>\<open>PyErr_Occurred()\<close>) and the object returned (\<open>None\<close> for \<^verbatim>\<open>NULL\<close>).
\<close>

record pycall =
  err_occurred :: bool
  returned :: "pyvalue option"

datatype PyGILState_STATE = PyGILState_LOCKED | PyGILState_UNLOCKED

subsection \<open>The operation context\<close>

text \<open>
  The struct \<^verbatim>\<open>UnrarOperation\<close>. \<^verbatim>\<open>HANDLE\<close> is a number with 0 for \<^verbatim>\<open>NULL\<close>;
  a \<^verbatim>\<open>PyObject*\<close> is the identity of the object, \<open>None\<close> for \<^verbatim>\<open>NULL\<close>. The
  buffer \<^verbatim>\<open>callback_error\<close> holds a C string: the model keeps its text.
\<close>

record UnrarOperation =
  unrar_data :: nat
  callback_object :: "nat option"
  thread_state :: PyGILState_STATE
  has_callback_error :: bool
  callback_error :: string
  output_fd :: cint

definition CALLBACK_ERROR_SZ :: nat where "CALLBACK_ERROR_SZ = 256"

text \<open>
  \<^verbatim>\<open>snprintf(buf, n, ...)\<close> stores at most \<open>n - 1\<close> characters of the formatted text.
  Every error branch of the callback is a \<^verbatim>\<open>snprintf\<close> into \<^verbatim>\<open>uo->callback_error\<close>
  followed by \<^verbatim>\<open>uo->has_callback_error = true\<close>.
\<close>

definition snprintf :: "nat \<Rightarrow> string \<Rightarrow> string" where
  "snprintf n s = take (n - 1) s"

definition set_callback_error :: "UnrarOperation \<Rightarrow> string \<Rightarrow> UnrarOperation" where
  "set_callback_error uo s =
     uo\<lparr>callback_error := snprintf CALLBACK_ERROR_SZ s, has_callback_error := True\<rparr>"

text \<open>The conversion \<^verbatim>\<open>%ld\<close> of a \<^verbatim>\<open>long\<close>.\<close>

fun dec_digits :: "nat \<Rightarrow> string" where
  "dec_digits n =
     (if n < 10 then [''0123456789'' ! n]
      else dec_digits (n div 10) @ [''0123456789'' ! (n mod 10)])"

definition fmt_ld :: "ulong \<Rightarrow> string" where
  "fmt_ld p = (if sint p < 0 then CHR ''-'' # dec_digits (nat (- sint p))
               else dec_digits (nat (sint p)))"

subsection \<open>Effects outside the context\<close>

text \<open>
  What the wrapper does to the world outside its own structs is kept as a trace of
  events: the release calls of the teardown, the bytes the operating system accepted from
  \<^verbatim>\<open>write\<close>, the Python methods called on the callback object and the password
  copied into the library's buffer.
\<close>

datatype event =
    EvRARCloseArchive nat
  | EvDecref nat
  | EvFree addr
  | EvWrite cint "byte list"
  | EvGetPassword nat
  | EvPasswordOut "wchar list"
  | EvProcessData nat "byte list"

subsection \<open>The write loop\<close>

text \<open>
  \<^verbatim>\<open>write_all(data, sz, fd)\<close>. Memory at \<^verbatim>\<open>data\<close> is a function from offsets to
  bytes. The answers of \<^verbatim>\<open>write\<close> are an input: a list of pairs of the value returned
  (an \<^verbatim>\<open>ssize_t\<close>) and the \<^verbatim>\<open>errno\<close> left behind, one pair for each call in turn.
  The result is \<open>None\<close> when the loop is still running after the last listed answer.

  The loop as written:
  \<^item> \<^verbatim>\<open>written >= sz\<close> compares an \<^verbatim>\<open>ssize_t\<close> with a \<^verbatim>\<open>size_t\<close>: the usual
    arithmetic conversions make it an unsigned comparison.
  \<^item> \<^verbatim>\<open>if (err == EINTR || err == EAGAIN || err == EWOULDBLOCK); continue;\<close>: the
    \<^verbatim>\<open>if\<close> ends at its semicolon, its body is the empty statement, and \<^verbatim>\<open>continue\<close>
    runs whenever \<^verbatim>\<open>written < 0\<close>. The \<^verbatim>\<open>return false\<close> after it is never reached.
  \<^item> \<^verbatim>\<open>sz -= written\<close> is the only update: \<^verbatim>\<open>data\<close> is not advanced.

  \<open>accepted\<close> is the operating system's side: the bytes a call that returned
  \<^verbatim>\<open>written\<close> took from the start of the buffer it was given.
\<close>

definition accepted :: "(nat \<Rightarrow> byte) \<Rightarrow> ulong \<Rightarrow> ulong \<Rightarrow> byte list" where
  "accepted data sz written =
     (if sint written \<le> 0 then [] else map data [0..<unat (min written sz)])"

fun write_all :: "(nat \<Rightarrow> byte) \<Rightarrow> ulong \<Rightarrow> cint \<Rightarrow> (ulong \<times> cint) list
    \<Rightarrow> (bool \<times> byte list) option" where
  "write_all data sz fd rs =
     (if 0 < sz then
        (case rs of
           [] \<Rightarrow> None
         | (written, err) # rs' \<Rightarrow>
             if sz \<le> written then Some (True, accepted data sz written)
             else if sint written < 0 then write_all data sz fd rs'
             else if written = 0 \<and> err \<noteq> 0 then Some (False, [])
             else map_option (\<lambda>(ok, out). (ok, accepted data sz written @ out))
                    (write_all data (sz - written) fd rs'))
      else Some (True, []))"

subsection \<open>The callback bridge\<close>

text \<open>
  \<^verbatim>\<open>unicode_to_wchar(o, buf, sz)\<close>: -1 when \<^verbatim>\<open>o\<close> is not a text object (a
  \<^verbatim>\<open>TypeError\<close> is set, which the callback clears before it returns); otherwise the
  result of \<^verbatim>\<open>PyUnicode_AsWideChar\<close>, which copies at most \<^verbatim>\<open>sz\<close> wide characters
  (the terminating zero among them when there is room) and returns how many characters
  of the text it copied. The second component is what was stored in \<^verbatim>\<open>buf\<close>.
\<close>

definition unicode_to_wchar :: "pyvalue \<Rightarrow> nat \<Rightarrow> int \<times> wchar list" where
  "unicode_to_wchar o' sz =
     (case o' of
        PyUnicode s \<Rightarrow> (int (min (length s) sz), take sz (s @ [0]))
      | _ \<Rightarrow> (- 1, []))"

text \<open>
  The macro \<^verbatim>\<open>length\<close> of the callback: \<^verbatim>\<open>(p2 & 0xffffffff)\<close>.
\<close>

definition length_p2 :: "ulong \<Rightarrow> ulong" where
  "length_p2 p2 = p2 AND 0xffffffff"

text \<open>
  The outcomes of the calls one callback invocation makes outside the wrapper:
  \<^verbatim>\<open>PyObject_CallMethod\<close> on the callback object, \<^verbatim>\<open>PyGILState_Ensure\<close> (the
  macro \<^verbatim>\<open>ALLOW_THREADS\<close> stores its result in \<^verbatim>\<open>uo->thread_state\<close>), the answers
  of \<^verbatim>\<open>write\<close>, and the text of \<^verbatim>\<open>strerror(errno)\<close> after the write loop.
\<close>

record cb_env =
  call_method :: pycall
  gil_ensure :: PyGILState_STATE
  write_results :: "(ulong \<times> cint) list"
  strerror_errno :: string

text \<open>
  \<^verbatim>\<open>unrar_callback(msg, user_data, p1, p2)\<close>. \<^verbatim>\<open>user_data\<close> is the context;
  \<^verbatim>\<open>p1\<close> is the memory it points to; \<^verbatim>\<open>p2\<close> is a signed 64-bit number. The
  result is the value returned to the library (\<^verbatim>\<open>ret\<close>, -1 unless a branch sets
  it to 0), the context as the callback leaves it, and the events. It is \<open>None\<close> when
  the write loop does not finish.
\<close>

definition unrar_callback :: "uint \<Rightarrow> UnrarOperation \<Rightarrow> (nat \<Rightarrow> byte) \<Rightarrow> ulong \<Rightarrow> cb_env
    \<Rightarrow> (int \<times> UnrarOperation \<times> event list) option" where
  "unrar_callback msg uo p1 p2 env =
    (let callback = callback_object uo in
     if msg = UCM_CHANGEVOLUME \<or> msg = UCM_CHANGEVOLUMEW then
       (if p2 = RAR_VOL_NOTIFY then Some (0, uo, [])
        else Some (- 1,
          set_callback_error uo ''Could not find next part of a multi-part archive'', []))
     else if msg = UCM_NEEDPASSWORD then Some (- 1, uo, [])
     else if msg = UCM_NEEDPASSWORDW then
       (if sint p2 \<le> 0 then
          Some (- 1, set_callback_error uo
            (''Invalid password buffer length sent to callback: '' @ fmt_ld p2), [])
        else
          (case callback of
             Some cb \<Rightarrow>
               (let pw = call_method env;
                    uo1 = (if err_occurred pw then set_callback_error uo
                             ''An exception occurred in the password callback handler''
                           else uo);
                    (ret, uo2, out) =
                      (case returned pw of
                         None \<Rightarrow> (- 1, uo1, [])
                       | Some v \<Rightarrow>
                           if v \<noteq> PyNone then
                             (let (sz, buf) = unicode_to_wchar v (unat (length_p2 p2)) in
                              if 0 < sz then (0, uo1, [EvPasswordOut buf])
                              else (- 1, set_callback_error uo1
                                ''The password callback handler did not return a unicode object'',
                                [EvPasswordOut buf]))
                           else (- 1, uo1, []))
                in Some (ret, uo2\<lparr>thread_state := gil_ensure env\<rparr>, EvGetPassword cb # out))
           | None \<Rightarrow> Some (- 1, set_callback_error uo ''No callback provided'', [])))
     else if msg = UCM_PROCESSDATA then
       (if sint p2 < 0 then
          Some (- 1, set_callback_error uo
            (''Invalid buffer length sent to callback: '' @ fmt_ld p2), [])
        else
          (case callback of
             Some cb \<Rightarrow>
               if - 1 < sint (output_fd uo) then
                 (case write_all p1 (length_p2 p2) (output_fd uo) (write_results env) of
                    None \<Rightarrow> None
                  | Some (ok, out) \<Rightarrow>
                      if \<not> ok then
                        Some (- 1, set_callback_error uo
                          (''Failed to write all bytes to output file. Error: ''
                             @ strerror_errno env), [EvWrite (output_fd uo) out])
                      else Some (0, uo, [EvWrite (output_fd uo) out]))
               else
                 (let pw = call_method env;
                      (ret, uo1) =
                        (if err_occurred pw then
                           (- 1, set_callback_error uo
                              ''An exception occurred in the password callback handler'')
                         else
                           (let ret = (case returned pw of
                                         None \<Rightarrow> - 1
                                       | Some v \<Rightarrow> if PyObject_IsTrue v \<noteq> 0 then 0 else - 1)
                            in if ret \<noteq> 0 then
                                 (ret, set_callback_error uo ''Processing canceled by the callback'')
                               else (ret, uo)))
                  in Some (ret, uo1\<lparr>thread_state := gil_ensure env\<rparr>,
                       [EvProcessData cb (map p1 [0..<unat (length_p2 p2)])]))
           | None \<Rightarrow> Some (- 1, set_callback_error uo ''No callback provided'', [])))
     else Some (- 1, uo, []))"

subsection \<open>A call into the UnRAR library\<close>

text \<open>
  The library is closed source. One call into it is what the wrapper can see of it: the
  library either returns a result, or calls the callback with a message, two parameters
  and the context, and goes on according to the value the callback returns. The
  environment of each callback invocation (see \<open>cb_env\<close>) stands beside the message.
  Such a run is finite: the model describes native calls that return.
\<close>

datatype 'a native_run =
    Done 'a
  | Callback uint "nat \<Rightarrow> byte" ulong cb_env "int \<Rightarrow> 'a native_run"

text \<open>
  Running a native call threads the context through its callbacks, in order, and
  collects their events.
\<close>

primrec run_native :: "'a native_run \<Rightarrow> UnrarOperation \<Rightarrow> ('a \<times> UnrarOperation \<times> event list) option"
  where
  "run_native (Done r) uo = Some (r, uo, [])"
| "run_native (Callback msg p1 p2 env k) uo =
     (case unrar_callback msg uo p1 p2 env of
        None \<Rightarrow> None
      | Some (ret, uo', evs) \<Rightarrow>
          map_option (\<lambda>(r, uo'', evs'). (r, uo'', evs @ evs')) (run_native (k ret) uo'))"

subsection \<open>Capsules and the state of the process\<close>

text \<open>
  A handle reaches Python as a capsule: an object holding a pointer and a name. The
  capsule functions belong to CPython; they are modelled as CPython documents them. A legal
  capsule has a pointer that is not \<^verbatim>\<open>NULL\<close>; two names match when both are
  \<^verbatim>\<open>NULL\<close> or both are the same text. \<^verbatim>\<open>PyObject\<close> stands for any object that is
  not a capsule.
\<close>

datatype pyobject =
    PyCapsule "addr option" "string option"
  | PyObject

definition NAME :: string where "NAME = ''RARFileHandle''"

definition name_matches :: "string option \<Rightarrow> string option \<Rightarrow> bool" where
  "name_matches name1 name2 =
     (if name1 = None \<or> name2 = None then name1 = name2 else the name1 = the name2)"

definition is_legal_capsule :: "pyobject \<Rightarrow> bool" where
  "is_legal_capsule ob = (case ob of PyCapsule p n \<Rightarrow> p \<noteq> None | PyObject \<Rightarrow> False)"

definition PyCapsule_IsValid :: "pyobject \<Rightarrow> string \<Rightarrow> bool" where
  "PyCapsule_IsValid ob nm =
     (case ob of
        PyCapsule p n \<Rightarrow> p \<noteq> None \<and> name_matches n (Some nm)
      | PyObject \<Rightarrow> False)"

text \<open>\<^verbatim>\<open>NULL\<close> (with a \<^verbatim>\<open>ValueError\<close> set) unless the capsule is legal and the name matches.\<close>

definition PyCapsule_GetPointer :: "pyobject \<Rightarrow> string \<Rightarrow> addr option" where
  "PyCapsule_GetPointer ob nm =
     (case ob of
        PyCapsule p n \<Rightarrow> if p \<noteq> None \<and> name_matches n (Some nm) then p else None
      | PyObject \<Rightarrow> None)"

definition PyCapsule_SetName :: "pyobject \<Rightarrow> string option \<Rightarrow> pyobject" where
  "PyCapsule_SetName ob nm =
     (case ob of
        PyCapsule p n \<Rightarrow> if p \<noteq> None then PyCapsule p nm else ob
      | PyObject \<Rightarrow> ob)"

text \<open>
  The state the wrapper works on: the Python objects by identity, the contexts allocated
  with \<^verbatim>\<open>calloc\<close> and not yet freed, by address, and the trace of events so far.
\<close>

record world =
  objects :: "nat \<Rightarrow> pyobject"
  heap :: "addr \<Rightarrow> UnrarOperation option"
  trace :: "event list"

text \<open>
  \<^verbatim>\<open>close_encapsulated_file(capsule)\<close>, the destructor of the capsule and the body
  of \<^verbatim>\<open>close_archive\<close>. The result is \<open>None\<close> when the pointer of a valid capsule
  is not an allocated context: dereferencing it is undefined in C.
\<close>

definition close_encapsulated_file :: "world \<Rightarrow> nat \<Rightarrow> world option" where
  "close_encapsulated_file w capsule =
     (if PyCapsule_IsValid (objects w capsule) NAME then
        (case PyCapsule_GetPointer (objects w capsule) NAME of
           None \<Rightarrow> None
         | Some p \<Rightarrow>
             (case heap w p of
                None \<Rightarrow> None
              | Some uo \<Rightarrow>
                  Some (w\<lparr>trace := trace w
                            @ (if unrar_data uo \<noteq> 0 then [EvRARCloseArchive (unrar_data uo)] else [])
                            @ (case callback_object uo of Some cb \<Rightarrow> [EvDecref cb] | None \<Rightarrow> [])
                            @ [EvFree p],
                          heap := (heap w)(p := None),
                          objects := (objects w)
                            (capsule := PyCapsule_SetName (objects w capsule) None)\<rparr>)))
      else Some w)"

text \<open>\<^verbatim>\<open>close_archive\<close> returns \<^verbatim>\<open>None\<close> whatever the teardown did.\<close>

definition close_archive :: "world \<Rightarrow> nat \<Rightarrow> ((pyexc + unit) \<times> world) option" where
  "close_archive w capsule =
     map_option (\<lambda>w'. (Inr (), w')) (close_encapsulated_file w capsule)"

definition from_capsule :: "world \<Rightarrow> nat \<Rightarrow> pyexc + addr" where
  "from_capsule w file_capsule =
     (case PyCapsule_GetPointer (objects w file_capsule) NAME of
        None \<Rightarrow> Inl (TypeError (''Not a valid '' @ NAME @ '' capsule''))
      | Some data \<Rightarrow> Inr data)"

subsection \<open>Decoding a header\<close>

text \<open>
  The fields of \<^verbatim>\<open>RARHeaderDataEx\<close> (declared in \<^verbatim>\<open>unrar/dll.hpp\<close>) that the
  wrapper reads. \<^verbatim>\<open>FileNameW\<close> is an array of wide characters, \<^verbatim>\<open>RedirName\<close> a
  pointer to wide characters (\<open>None\<close> for \<^verbatim>\<open>NULL\<close>), the others are
  \<^verbatim>\<open>unsigned int\<close>.
\<close>

record RARHeaderDataEx =
  FileNameW :: "wchar list"
  Flags :: uint
  PackSize :: uint
  PackSizeHigh :: uint
  UnpSize :: uint
  UnpSizeHigh :: uint
  HostOS :: uint
  FileCRC :: uint
  FileTime :: uint
  UnpVer :: uint
  Method :: uint
  FileAttr :: uint
  RedirType :: uint
  RedirName :: "(nat \<Rightarrow> wchar) option"
  RedirNameSize :: uint

type_synonym pydict = "string \<Rightarrow> pyvalue option"

text \<open>
  Creating a Python object can fail when memory runs out, and every such failure is a
  branch of the decoder. The decoder stops at the first failure, so the model takes one
  number \<open>mem\<close>: how many further requests to the Python runtime succeed. Each of
  \<^verbatim>\<open>PyDict_New\<close>, \<^verbatim>\<open>PyUnicode_FromWideChar\<close>, \<^verbatim>\<open>Py_BuildValue\<close> and
  \<^verbatim>\<open>PyDict_SetItemString\<close> is one request. A function that returns \<^verbatim>\<open>NULL\<close> gives
  \<open>Inl\<close> of the exception it has set, if any.
\<close>

definition wcslen :: "wchar list \<Rightarrow> nat" where
  "wcslen a = length (takeWhile (\<lambda>c. c \<noteq> 0) a)"

definition wchar_to_unicode :: "nat \<Rightarrow> (nat \<Rightarrow> wchar) option \<Rightarrow> nat \<Rightarrow> pyexc option + pyvalue"
  where
  "wchar_to_unicode mem o' sz =
     (case o' of
        None \<Rightarrow> Inl None
      | Some buf \<Rightarrow>
          if mem < 1 then Inl (Some (MemoryError ''Out of memory at line number: 93''))
          else Inr (PyUnicode (map buf [0..<sz])))"

text \<open>
  The macro \<^verbatim>\<open>AVAL(name, code, val)\<close>: build the value, store it under \<^verbatim>\<open>name\<close>,
  \<^verbatim>\<open>goto error\<close> when either step fails. \<open>AVALs\<close> is a run of consecutive uses.
\<close>

definition AVAL :: "string \<Rightarrow> pyvalue \<Rightarrow> nat \<times> pydict \<Rightarrow> (nat \<times> pydict) option" where
  "AVAL nm val st = (case st of (mem, ans) \<Rightarrow>
     if mem < 1 then None
     else if mem - 1 < 1 then None
     else Some (mem - 2, ans(nm \<mapsto> val)))"

fun AVALs :: "(string \<times> pyvalue) list \<Rightarrow> nat \<times> pydict \<Rightarrow> (nat \<times> pydict) option" where
  "AVALs [] st = Some st"
| "AVALs ((nm, val) # items) st =
     (case AVAL nm val st of None \<Rightarrow> None | Some st' \<Rightarrow> AVALs items st')"

text \<open>
  \<^verbatim>\<open>header_to_python\<close>. The format codes of \<^verbatim>\<open>Py_BuildValue\<close>: \<^verbatim>\<open>H\<close>, \<^verbatim>\<open>I\<close>
  and \<^verbatim>\<open>k\<close> read the argument as unsigned, \<^verbatim>\<open>b\<close> reads it as an \<^verbatim>\<open>int\<close>; \<^verbatim>\<open>N\<close>
  and \<^verbatim>\<open>O\<close> pass an object through.
\<close>

definition header_to_python :: "nat \<Rightarrow> RARHeaderDataEx \<Rightarrow> pyexc option + pydict" where
  "header_to_python mem fh =
     (if mem < 1 then Inl (Some (MemoryError []))
      else
        (case wchar_to_unicode (mem - 1) (Some (\<lambda>i. FileNameW fh ! i)) (wcslen (FileNameW fh)) of
           Inl e \<Rightarrow> Inl e
         | Inr filename \<Rightarrow>
             (case AVALs
                [(''filename'', filename),
                 (''flags'', PyLong (uint (Flags fh))),
                 (''pack_size'', PyLong (uint (combine (PackSizeHigh fh) (PackSize fh)))),
                 (''unpack_size'', PyLong (uint (combine (UnpSizeHigh fh) (UnpSize fh)))),
                 (''host_os'', PyLong (sint (HostOS fh))),
                 (''file_crc'', PyLong (uint (FileCRC fh))),
                 (''file_time'', PyLong (uint (FileTime fh))),
                 (''unpack_ver'', PyLong (sint (UnpVer fh))),
                 (''method'', PyLong (sint (Method fh))),
                 (''file_attr'', PyLong (uint (FileAttr fh))),
                 (''is_dir'', PyBool (Flags fh AND RHDF_DIRECTORY \<noteq> 0)),
                 (''redir_type'', PyLong (uint (RedirType fh)))]
                (mem - 2, Map.empty) of
                None \<Rightarrow> Inl (Some (MemoryError []))
              | Some (mem', ans) \<Rightarrow>
                  if 0 < RedirNameSize fh then
                    (case wchar_to_unicode mem' (RedirName fh) (unat (RedirNameSize fh)) of
                       Inl e \<Rightarrow> Inl e
                     | Inr filename' \<Rightarrow>
                         (case AVAL ''redir_name'' filename' (mem' - 1, ans) of
                            None \<Rightarrow> Inl (Some (MemoryError []))
                          | Some (mem'', ans') \<Rightarrow> Inr ans'))
                  else Inr ans)))"

subsection \<open>The operations on a handle\<close>

text \<open>
  A function of the module that returns \<^verbatim>\<open>NULL\<close> raises the exception it has set;
  when it has set none, the interpreter raises \<^verbatim>\<open>SystemError\<close>.
\<close>

definition raised :: "pyexc option \<Rightarrow> pyexc" where
  "raised e = (case e of
     Some x \<Rightarrow> x
   | None \<Rightarrow> SystemError ''returned NULL without setting an exception'')"

text \<open>
  \<^verbatim>\<open>read_next_header(capsule)\<close> and \<^verbatim>\<open>process_file(capsule, operation, output_fd)\<close>,
  with their arguments already parsed. \<open>g\<close> is what \<^verbatim>\<open>PyGILState_Ensure\<close> returns in
  the macro \<^verbatim>\<open>ALLOW_THREADS\<close>; \<open>RARReadHeaderEx\<close> and \<open>RARProcessFile\<close> are the
  library's behaviour for the arguments the wrapper passes, the first giving the status
  together with the header it has filled in. The context lives in the heap: the
  callbacks of the native call reach it through the user-data pointer registered when
  the archive was opened, and nothing else touches it while the call runs. The result is
  \<open>None\<close> when the call does not return (the write loop of a callback does not
  finish) or when the pointer of the capsule is not an allocated context.
\<close>

definition read_next_header :: "world \<Rightarrow> nat \<Rightarrow> PyGILState_STATE
    \<Rightarrow> (nat \<Rightarrow> (uint \<times> RARHeaderDataEx) native_run) \<Rightarrow> nat
    \<Rightarrow> ((pyexc + pydict option) \<times> world) option" where
  "read_next_header w file_capsule g RARReadHeaderEx mem =
     (case from_capsule w file_capsule of
        Inl e \<Rightarrow> Some (Inl e, w)
      | Inr p \<Rightarrow>
          (case heap w p of
             None \<Rightarrow> None
           | Some uo \<Rightarrow>
               (let data = unrar_data uo in
                case run_native (RARReadHeaderEx data) (uo\<lparr>thread_state := g\<rparr>) of
                  None \<Rightarrow> None
                | Some ((retval, header), uo', evs) \<Rightarrow>
                    (let w' = w\<lparr>heap := (heap w)(p \<mapsto> uo'), trace := trace w @ evs\<rparr> in
                     if retval = ERAR_END_ARCHIVE then Some (Inr None, w')
                     else if retval = ERAR_SUCCESS then
                       (case header_to_python mem header of
                          Inl e \<Rightarrow> Some (Inl (raised e), w')
                        | Inr d \<Rightarrow> Some (Inr (Some d), w'))
                     else Some (Inl (convert_rar_error retval), w')))))"

definition process_file :: "world \<Rightarrow> nat \<Rightarrow> cint \<Rightarrow> cint \<Rightarrow> PyGILState_STATE
    \<Rightarrow> (nat \<Rightarrow> cint \<Rightarrow> uint native_run)
    \<Rightarrow> ((pyexc + unit) \<times> world) option" where
  "process_file w file_capsule operation fd g RARProcessFile =
     (case from_capsule w file_capsule of
        Inl e \<Rightarrow> Some (Inl e, w)
      | Inr p \<Rightarrow>
          (case heap w p of
             None \<Rightarrow> None
           | Some uo \<Rightarrow>
               (let uo1 = uo\<lparr>output_fd := fd\<rparr>;
                    data = unrar_data uo1
                in
                case run_native (RARProcessFile data operation) (uo1\<lparr>thread_state := g\<rparr>) of
                  None \<Rightarrow> None
                | Some (retval, uo', evs) \<Rightarrow>
                    (let w' = w\<lparr>heap := (heap w)(p \<mapsto> uo'), trace := trace w @ evs\<rparr> in
                     if retval = ERAR_SUCCESS then Some (Inr (), w')
                     else if retval = ERAR_UNKNOWN \<and> has_callback_error uo' then
                       Some (Inl (UNRARError (callback_error uo')), w')
                     else Some (Inl (convert_rar_error retval), w')))))"

text \<open>The context a capsule stands for, if it is a live handle.\<close>

definition context_of :: "world \<Rightarrow> nat \<Rightarrow> UnrarOperation option" where
  "context_of w capsule =
     (case PyCapsule_GetPointer (objects w capsule) NAME of
        None \<Rightarrow> None
      | Some p \<Rightarrow> heap w p)"

subsection \<open>Sample inputs\<close>

text \<open>
  Concrete inputs on which the theorems below are evaluated: a context as
  \<^verbatim>\<open>open_archive\<close> leaves it (native handle 1, callback object 5), the same context
  with an error pending, a process state in which object 3 is the capsule of the context
  at address 8, three bytes of data, native calls that return at once, and a header.
\<close>

definition sample_context :: UnrarOperation where
  "sample_context = \<lparr>unrar_data = 1, callback_object = Some 5,
     thread_state = PyGILState_UNLOCKED, has_callback_error = False, callback_error = [],
     output_fd = - 1\<rparr>"


definition sample_world :: world where
  "sample_world = \<lparr>objects = (\<lambda>i. PyObject)(3 := PyCapsule (Some 8) (Some NAME)),
     heap = (\<lambda>a. None)(8 := Some sample_context), trace = []\<rparr>"


definition sample_data :: "nat \<Rightarrow> byte" where
  "sample_data i = (if i = 0 then 97 else if i = 1 then 98 else 99)"

definition sample_env :: cb_env where
  "sample_env = \<lparr>call_method = \<lparr>err_occurred = False, returned = Some (PyBool True)\<rparr>,
     gil_ensure = PyGILState_UNLOCKED, write_results = [], strerror_errno = ''Success''\<rparr>"

definition raising_env :: cb_env where
  "raising_env = sample_env\<lparr>call_method := \<lparr>err_occurred = True, returned = None\<rparr>\<rparr>"

definition falsy_env :: cb_env where
  "falsy_env = sample_env\<lparr>call_method := \<lparr>err_occurred = False, returned = Some (PyBool False)\<rparr>\<rparr>"

definition native_returns :: "uint \<Rightarrow> nat \<Rightarrow> cint \<Rightarrow> uint native_run" where
  "native_returns status data operation = Done status"

definition native_delivers :: "cb_env \<Rightarrow> nat \<Rightarrow> cint \<Rightarrow> uint native_run" where
  "native_delivers env data operation =
     Callback UCM_PROCESSDATA sample_data 3 env
       (\<lambda>ret. Done (if ret = 0 then ERAR_SUCCESS else ERAR_UNKNOWN))"

definition sample_header :: RARHeaderDataEx where
  "sample_header = \<lparr>FileNameW = [97, 98, 0, 0], Flags = 0x20, PackSize = 5, PackSizeHigh = 1,
     UnpSize = 7, UnpSizeHigh = 0, HostOS = 3, FileCRC = 9, FileTime = 10, UnpVer = 50,
     Method = 48, FileAttr = 16, RedirType = 0, RedirName = None, RedirNameSize = 0\<rparr>"

definition link_header :: RARHeaderDataEx where
  "link_header = sample_header\<lparr>Flags := 0, RedirType := 1,
     RedirName := Some (\<lambda>i. if i = 0 then 120 else 121), RedirNameSize := 2\<rparr>"

definition header_returns :: "uint \<Rightarrow> RARHeaderDataEx \<Rightarrow> nat \<Rightarrow> (uint \<times> RARHeaderDataEx) native_run"
  where
  "header_returns status header data = Done (status, header)"

section \<open>Properties\<close>

lemmas erar_defs =
  ERAR_SUCCESS_def ERAR_END_ARCHIVE_def ERAR_NO_MEMORY_def ERAR_BAD_DATA_def
  ERAR_BAD_ARCHIVE_def ERAR_UNKNOWN_FORMAT_def ERAR_EOPEN_def ERAR_ECREATE_def
  ERAR_ECLOSE_def ERAR_EREAD_def ERAR_EWRITE_def ERAR_SMALL_BUF_def ERAR_UNKNOWN_def
  ERAR_MISSING_PASSWORD_def ERAR_EREFERENCE_def ERAR_BAD_PASSWORD_def

lemmas ucm_defs =
  UCM_CHANGEVOLUME_def UCM_PROCESSDATA_def UCM_NEEDPASSWORD_def UCM_CHANGEVOLUMEW_def
  UCM_NEEDPASSWORDW_def

subsection \<open>Error translator\<close>

text \<open>
  C7. The error translator is total over the 32-bit status codes. Each of the fifteen
  codes of the \<^verbatim>\<open>CASE\<close> lines raises \<^verbatim>\<open>UNRARError\<close> with the name of the code;
  \<^verbatim>\<open>ERAR_NO_MEMORY\<close> raises \<^verbatim>\<open>MemoryError\<close>, which is not an \<^verbatim>\<open>UNRARError\<close>
  whatever the message; every other code raises \<^verbatim>\<open>UNRARError\<close> with the message
  "Unknown error".
\<close>

theorem convert_rar_error_total:
  "convert_rar_error ERAR_SUCCESS = UNRARError ''ERAR_SUCCESS''
  \<and> convert_rar_error ERAR_END_ARCHIVE = UNRARError ''ERAR_END_ARCHIVE''
  \<and> convert_rar_error ERAR_BAD_DATA = UNRARError ''ERAR_BAD_DATA''
  \<and> convert_rar_error ERAR_BAD_ARCHIVE = UNRARError ''ERAR_BAD_ARCHIVE''
  \<and> convert_rar_error ERAR_UNKNOWN_FORMAT = UNRARError ''ERAR_UNKNOWN_FORMAT''
  \<and> convert_rar_error ERAR_EOPEN = UNRARError ''ERAR_EOPEN''
  \<and> convert_rar_error ERAR_ECREATE = UNRARError ''ERAR_ECREATE''
  \<and> convert_rar_error ERAR_ECLOSE = UNRARError ''ERAR_ECLOSE''
  \<and> convert_rar_error ERAR_EREAD = UNRARError ''ERAR_EREAD''
  \<and> convert_rar_error ERAR_EWRITE = UNRARError ''ERAR_EWRITE''
  \<and> convert_rar_error ERAR_SMALL_BUF = UNRARError ''ERAR_SMALL_BUF''
  \<and> convert_rar_error ERAR_UNKNOWN = UNRARError ''ERAR_UNKNOWN''
  \<and> convert_rar_error ERAR_MISSING_PASSWORD = UNRARError ''ERAR_MISSING_PASSWORD''
  \<and> convert_rar_error ERAR_EREFERENCE = UNRARError ''ERAR_EREFERENCE''
  \<and> convert_rar_error ERAR_BAD_PASSWORD = UNRARError ''ERAR_BAD_PASSWORD''
  \<and> convert_rar_error ERAR_NO_MEMORY = MemoryError ''Out of memory at line number: 67''
  \<and> (\<forall>m. convert_rar_error ERAR_NO_MEMORY \<noteq> UNRARError m)
  \<and> (code \<notin> {ERAR_SUCCESS, ERAR_END_ARCHIVE, ERAR_BAD_DATA, ERAR_BAD_ARCHIVE,
        ERAR_UNKNOWN_FORMAT, ERAR_EOPEN, ERAR_ECREATE, ERAR_ECLOSE, ERAR_EREAD, ERAR_EWRITE,
        ERAR_SMALL_BUF, ERAR_UNKNOWN, ERAR_MISSING_PASSWORD, ERAR_EREFERENCE,
        ERAR_BAD_PASSWORD, ERAR_NO_MEMORY}
      \<longrightarrow> convert_rar_error code = UNRARError ''Unknown error'')"
  by (simp add: convert_rar_error_def erar_defs)

theorem convert_rar_error_total_witness:
  "(99 :: uint) \<notin> {ERAR_SUCCESS, ERAR_END_ARCHIVE, ERAR_BAD_DATA, ERAR_BAD_ARCHIVE,
        ERAR_UNKNOWN_FORMAT, ERAR_EOPEN, ERAR_ECREATE, ERAR_ECLOSE, ERAR_EREAD, ERAR_EWRITE,
        ERAR_SMALL_BUF, ERAR_UNKNOWN, ERAR_MISSING_PASSWORD, ERAR_EREFERENCE,
        ERAR_BAD_PASSWORD, ERAR_NO_MEMORY}
   \<and> convert_rar_error 99 = UNRARError ''Unknown error''"
  using convert_rar_error_total [of 99] by (simp add: erar_defs)

subsection \<open>Split-integer recombination\<close>

lemma push_bit_32_or_eq_add:
  "push_bit 32 (ucast (h :: uint) :: ulong) OR ucast (l :: uint) = push_bit 32 (ucast h) + ucast l"
  by (rule disjunctive_add [symmetric]) (auto simp: bit_simps dest: bit_imp_le_length)

lemma unat_ucast_uint_ulong: "unat (ucast (l :: uint) :: ulong) = unat l"
proof -
  have "unat l < 2 ^ 32" using unsigned_less [of l] by simp
  then have "unat l < 2 ^ 64" by simp
  then show ?thesis by (simp add: unsigned_ucast_eq take_bit_nat_eq_self_iff)
qed

lemma unat_push_bit_32_ucast:
  "unat (push_bit 32 (ucast (h :: uint) :: ulong)) = unat h * 2 ^ 32"
proof -
  have "unat h < 2 ^ 32" using unsigned_less [of h] by simp
  then have "unat h * 2 ^ 32 < 2 ^ 64" by simp
  then have "take_bit 64 (unat h * 2 ^ 32) = unat h * 2 ^ 32"
    by (simp only: take_bit_nat_eq_self_iff)
  moreover have "unat (push_bit 32 (ucast h :: ulong))
      = take_bit 64 (push_bit 32 (unat (ucast h :: ulong)))"
    by (simp only: unsigned_push_bit_eq) simp
  ultimately show ?thesis
    by (simp only: unat_ucast_uint_ulong push_bit_eq_mult)
qed

lemma unat_combine: "unat (combine h l) = unat h * 2 ^ 32 + unat l"
proof -
  have "unat h < 2 ^ 32" "unat l < 2 ^ 32"
    using unsigned_less [of h] unsigned_less [of l] by simp_all
  then have "unat h * 2 ^ 32 + unat l < 2 ^ 64" by simp
  then show ?thesis
    by (simp add: combine_def push_bit_32_or_eq_add unat_push_bit_32_ucast
        unat_ucast_uint_ulong unat_add_lem [THEN iffD1])
qed

text \<open>
  C4. For all 32-bit \<^verbatim>\<open>h\<close> and \<^verbatim>\<open>l\<close>, \<^verbatim>\<open>combine h l\<close> is the 64-bit value
  \<^verbatim>\<open>(h << 32) | l\<close>, that is \<open>h * 2^32 + l\<close> read as an unsigned number; for high 1 and
  low 0 it is \<open>2^32\<close>, and for high 0 and low \<^verbatim>\<open>0xFFFFFFFF\<close> it is \<^verbatim>\<open>0xFFFFFFFF\<close>.
\<close>

theorem combine_high_low:
  "combine h l = push_bit 32 (ucast h) OR ucast l
  \<and> unat (combine h l) = unat h * 2 ^ 32 + unat l
  \<and> combine 1 0 = 2 ^ 32
  \<and> combine 0 0xFFFFFFFF = 0xFFFFFFFF"
  by (simp add: unat_combine) (simp add: combine_def)

subsection \<open>Teardown and capsules\<close>

lemmas capsule_defs = PyCapsule_IsValid_def PyCapsule_GetPointer_def PyCapsule_SetName_def
  name_matches_def

lemma close_encapsulated_file_live:
  assumes "PyCapsule_GetPointer (objects w c) NAME = Some p" and "heap w p = Some uo"
  shows "close_encapsulated_file w c =
    Some (w\<lparr>trace := trace w
              @ (if unrar_data uo \<noteq> 0 then [EvRARCloseArchive (unrar_data uo)] else [])
              @ (case callback_object uo of Some cb \<Rightarrow> [EvDecref cb] | None \<Rightarrow> [])
              @ [EvFree p],
            heap := (heap w)(p := None),
            objects := (objects w)(c := PyCapsule_SetName (objects w c) None)\<rparr>)"
  using assms
  by (auto simp: close_encapsulated_file_def capsule_defs split: pyobject.splits if_splits)

lemma close_encapsulated_file_invalidates:
  "close_encapsulated_file w c = Some w1 \<Longrightarrow> \<not> PyCapsule_IsValid (objects w1 c) NAME"
  by (auto simp: close_encapsulated_file_def capsule_defs NAME_def
      split: if_splits option.splits pyobject.splits)

lemma close_encapsulated_file_invalid:
  "\<not> PyCapsule_IsValid (objects w c) NAME \<Longrightarrow> close_encapsulated_file w c = Some w"
  by (simp add: close_encapsulated_file_def)

lemma close_encapsulated_file_twice:
  "close_encapsulated_file w c = Some w1 \<Longrightarrow> close_encapsulated_file w1 c = Some w1"
  by (rule close_encapsulated_file_invalid) (rule close_encapsulated_file_invalidates)

lemma from_capsule_invalid:
  "\<not> PyCapsule_IsValid (objects w c) NAME \<Longrightarrow>
     from_capsule w c = Inl (TypeError ''Not a valid RARFileHandle capsule'')"
  by (auto simp: from_capsule_def capsule_defs NAME_def split: pyobject.splits if_splits)

text \<open>
  C3. Close is idempotent. On a live handle (a valid capsule whose pointer is an allocated
  context) the first close returns \<^verbatim>\<open>None\<close>, closes the native handle if it is not
  \<^verbatim>\<open>NULL\<close>, drops the reference to the callback object and frees the context, in
  this order and once each; the handle is then no longer live, and closing it again, through
  \<^verbatim>\<open>close_archive\<close> or through the destructor, returns without an error and leaves
  the whole state, the trace of release calls included, as it was. For any handle, a close
  after a close changes nothing.
\<close>

theorem close_idempotent:
  "(PyCapsule_GetPointer (objects w c) NAME = Some p \<and> heap w p = Some uo \<longrightarrow>
      (\<exists>w1. close_archive w c = Some (Inr (), w1)
         \<and> trace w1 = trace w
              @ (if unrar_data uo \<noteq> 0 then [EvRARCloseArchive (unrar_data uo)] else [])
              @ (case callback_object uo of Some cb \<Rightarrow> [EvDecref cb] | None \<Rightarrow> [])
              @ [EvFree p]
         \<and> heap w1 = (heap w)(p := None)
         \<and> context_of w1 c = None
         \<and> close_archive w1 c = Some (Inr (), w1)
         \<and> close_encapsulated_file w1 c = Some w1))
   \<and> (close_archive w c = Some (r, w2) \<longrightarrow>
        r = Inr () \<and> close_archive w2 c = Some (Inr (), w2)
        \<and> close_encapsulated_file w2 c = Some w2)"
proof (intro conjI impI)
  assume live: "PyCapsule_GetPointer (objects w c) NAME = Some p \<and> heap w p = Some uo"
  define w1 where "w1 = w\<lparr>trace := trace w
              @ (if unrar_data uo \<noteq> 0 then [EvRARCloseArchive (unrar_data uo)] else [])
              @ (case callback_object uo of Some cb \<Rightarrow> [EvDecref cb] | None \<Rightarrow> [])
              @ [EvFree p],
            heap := (heap w)(p := None),
            objects := (objects w)(c := PyCapsule_SetName (objects w c) None)\<rparr>"
  have c1: "close_encapsulated_file w c = Some w1"
    using live close_encapsulated_file_live [of w c p uo] by (simp add: w1_def)
  have c2: "close_encapsulated_file w1 c = Some w1"
    using c1 by (rule close_encapsulated_file_twice)
  have inv: "\<not> PyCapsule_IsValid (objects w1 c) NAME"
    using c1 by (rule close_encapsulated_file_invalidates)
  have ctx: "context_of w1 c = None"
    using inv by (auto simp: context_of_def capsule_defs split: pyobject.splits if_splits)
  show "\<exists>w1. close_archive w c = Some (Inr (), w1)
         \<and> trace w1 = trace w
              @ (if unrar_data uo \<noteq> 0 then [EvRARCloseArchive (unrar_data uo)] else [])
              @ (case callback_object uo of Some cb \<Rightarrow> [EvDecref cb] | None \<Rightarrow> [])
              @ [EvFree p]
         \<and> heap w1 = (heap w)(p := None)
         \<and> context_of w1 c = None
         \<and> close_archive w1 c = Some (Inr (), w1)
         \<and> close_encapsulated_file w1 c = Some w1"
    using c1 c2 ctx by (intro exI [of _ w1]) (simp add: close_archive_def w1_def)
next
  assume a: "close_archive w c = Some (r, w2)"
  then have c1: "close_encapsulated_file w c = Some w2" and r: "r = Inr ()"
    by (auto simp: close_archive_def)
  have c2: "close_encapsulated_file w2 c = Some w2"
    using c1 by (rule close_encapsulated_file_twice)
  show "r = Inr ()" by (rule r)
  show "close_archive w2 c = Some (Inr (), w2)" using c2 by (simp add: close_archive_def)
  show "close_encapsulated_file w2 c = Some w2" by (rule c2)
qed

theorem close_idempotent_witness:
  "PyCapsule_GetPointer (objects sample_world 3) NAME = Some 8
   \<and> heap sample_world 8 = Some sample_context
   \<and> (\<exists>w1. close_archive sample_world 3 = Some (Inr (), w1)
         \<and> trace w1 = [EvRARCloseArchive 1, EvDecref 5, EvFree 8]
         \<and> heap w1 = (heap sample_world)(8 := None)
         \<and> context_of w1 3 = None
         \<and> close_archive w1 3 = Some (Inr (), w1)
         \<and> close_encapsulated_file w1 3 = Some w1)"
proof -
  have live: "PyCapsule_GetPointer (objects sample_world 3) NAME = Some 8
      \<and> heap sample_world 8 = Some sample_context"
    by (simp add: sample_world_def capsule_defs)
  from close_idempotent [of sample_world 3 8 sample_context] live
  show ?thesis by (simp add: sample_world_def sample_context_def)
qed

text \<open>
  C10. An object that is not a valid capsule named \<^verbatim>\<open>RARFileHandle\<close> (not a capsule at
  all, or a capsule of another name) makes \<^verbatim>\<open>read_next_header\<close> and
  \<^verbatim>\<open>process_file\<close> raise \<^verbatim>\<open>TypeError\<close> "Not a valid RARFileHandle capsule" with the
  state untouched: no native call, no access to a context. A handle that has been closed is
  such an object: the teardown sets the name of the capsule to \<^verbatim>\<open>NULL\<close>.
\<close>

theorem invalid_capsule_type_error:
  "(\<not> PyCapsule_IsValid (objects w c) NAME \<longrightarrow>
      read_next_header w c g R mem
        = Some (Inl (TypeError ''Not a valid RARFileHandle capsule''), w)
      \<and> process_file w c operation fd g P
        = Some (Inl (TypeError ''Not a valid RARFileHandle capsule''), w))
   \<and> (close_encapsulated_file w c = Some w1 \<longrightarrow>
        \<not> PyCapsule_IsValid (objects w1 c) NAME
        \<and> PyCapsule_GetPointer (objects w1 c) NAME = None
        \<and> read_next_header w1 c g R mem
          = Some (Inl (TypeError ''Not a valid RARFileHandle capsule''), w1)
        \<and> process_file w1 c operation fd g P
          = Some (Inl (TypeError ''Not a valid RARFileHandle capsule''), w1))"
  using close_encapsulated_file_invalidates [of w c w1]
  by (auto simp: read_next_header_def process_file_def from_capsule_invalid capsule_defs
      split: pyobject.splits)

theorem invalid_capsule_type_error_witness:
  "\<not> PyCapsule_IsValid (objects sample_world 4) NAME
   \<and> read_next_header sample_world 4 PyGILState_UNLOCKED (header_returns ERAR_SUCCESS sample_header) 100
       = Some (Inl (TypeError ''Not a valid RARFileHandle capsule''), sample_world)
   \<and> process_file sample_world 4 RAR_TEST (- 1) PyGILState_UNLOCKED (native_returns ERAR_SUCCESS)
       = Some (Inl (TypeError ''Not a valid RARFileHandle capsule''), sample_world)
   \<and> close_encapsulated_file sample_world 3 = Some (the (close_encapsulated_file sample_world 3))
   \<and> process_file (the (close_encapsulated_file sample_world 3)) 3 RAR_TEST (- 1)
        PyGILState_UNLOCKED (native_returns ERAR_SUCCESS)
       = Some (Inl (TypeError ''Not a valid RARFileHandle capsule''),
           the (close_encapsulated_file sample_world 3))
   \<and> read_next_header (the (close_encapsulated_file sample_world 3)) 3
        PyGILState_UNLOCKED (header_returns ERAR_SUCCESS sample_header) 100
       = Some (Inl (TypeError ''Not a valid RARFileHandle capsule''),
           the (close_encapsulated_file sample_world 3))"
proof -
  have inv: "\<not> PyCapsule_IsValid (objects sample_world 4) NAME"
    by (simp add: sample_world_def capsule_defs)
  have live: "PyCapsule_GetPointer (objects sample_world 3) NAME = Some 8"
      "heap sample_world 8 = Some sample_context"
    by (simp_all add: sample_world_def capsule_defs)
  have cl: "close_encapsulated_file sample_world 3
      = Some (the (close_encapsulated_file sample_world 3))"
    by (simp add: close_encapsulated_file_live [OF live])
  from inv cl
    invalid_capsule_type_error [of sample_world 4 PyGILState_UNLOCKED
      "header_returns ERAR_SUCCESS sample_header" 100 RAR_TEST "- 1"
      "native_returns ERAR_SUCCESS"]
    invalid_capsule_type_error [of sample_world 3 PyGILState_UNLOCKED
      "header_returns ERAR_SUCCESS sample_header" 100 RAR_TEST "- 1"
      "native_returns ERAR_SUCCESS" "the (close_encapsulated_file sample_world 3)"]
  show ?thesis by simp
qed


subsection \<open>The file processor\<close>





lemma process_file_live:
  assumes "from_capsule w c = Inr p" and "heap w p = Some uo"
    and "run_native (P (unrar_data uo) operation) (uo\<lparr>output_fd := fd, thread_state := g\<rparr>)
          = Some (retval, uo', evs)"
  shows "process_file w c operation fd g P =
     Some (if retval = ERAR_SUCCESS then Inr ()
           else if retval = ERAR_UNKNOWN \<and> has_callback_error uo'
             then Inl (UNRARError (callback_error uo'))
           else Inl (convert_rar_error retval),
           w\<lparr>heap := (heap w)(p \<mapsto> uo'), trace := trace w @ evs\<rparr>)"
  using assms by (simp add: process_file_def Let_def)









subsection \<open>The data consumer\<close>

lemma set_callback_error_short:
  "length s < 256 \<Longrightarrow> callback_error (set_callback_error uo s) = s"
  by (simp add: set_callback_error_def snprintf_def CALLBACK_ERROR_SZ_def)

lemma unrar_callback_process_data:
  assumes "callback_object uo = Some cb" and "\<not> - 1 < sint (output_fd uo)" and "0 \<le> sint p2"
  shows "unrar_callback UCM_PROCESSDATA uo p1 p2 env =
    Some (if err_occurred (call_method env) then - 1
          else if (case returned (call_method env) of None \<Rightarrow> True
                   | Some v \<Rightarrow> PyObject_IsTrue v = 0) then - 1
          else 0,
          (if err_occurred (call_method env) then
             set_callback_error uo ''An exception occurred in the password callback handler''
           else if (case returned (call_method env) of None \<Rightarrow> True
                   | Some v \<Rightarrow> PyObject_IsTrue v = 0) then
             set_callback_error uo ''Processing canceled by the callback''
           else uo)\<lparr>thread_state := gil_ensure env\<rparr>,
          [EvProcessData cb (map p1 [0..<unat (length_p2 p2)])])"
  using assms
  by (auto simp: unrar_callback_def ucm_defs Let_def split: option.splits)

text \<open>
  C5, as the code has it. A data-available callback with a callback object registered, no
  output descriptor set and a length that is not negative calls the consumer. If the
  consumer returns nothing or a value that is false, the bridge records "Processing
  canceled by the callback" and returns -1 (abort). If the call raises, the bridge also
  returns -1, and the error it records is the one for an exception in the handler. If the
  consumer returns a value whose truth test does not answer 0, the bridge returns 0
  (success) and records nothing. When the library then gives up with
  \<^verbatim>\<open>ERAR_UNKNOWN\<close>, \<^verbatim>\<open>process_file\<close> raises the recorded message.
\<close>

theorem process_data_consumer:
  assumes "callback_object uo = Some cb" and "\<not> - 1 < sint (output_fd uo)" and "0 \<le> sint p2"
  shows "(err_occurred (call_method env) \<longrightarrow>
      unrar_callback UCM_PROCESSDATA uo p1 p2 env =
        Some (- 1,
          (set_callback_error uo ''An exception occurred in the password callback handler'')
            \<lparr>thread_state := gil_ensure env\<rparr>,
          [EvProcessData cb (map p1 [0..<unat (length_p2 p2)])]))
   \<and> (\<not> err_occurred (call_method env)
       \<and> (returned (call_method env) = None
          \<or> (\<exists>v. returned (call_method env) = Some v \<and> PyObject_IsTrue v = 0)) \<longrightarrow>
      unrar_callback UCM_PROCESSDATA uo p1 p2 env =
        Some (- 1,
          (set_callback_error uo ''Processing canceled by the callback'')
            \<lparr>thread_state := gil_ensure env\<rparr>,
          [EvProcessData cb (map p1 [0..<unat (length_p2 p2)])]))
   \<and> (\<not> err_occurred (call_method env)
       \<and> (\<exists>v. returned (call_method env) = Some v \<and> PyObject_IsTrue v \<noteq> 0) \<longrightarrow>
      unrar_callback UCM_PROCESSDATA uo p1 p2 env =
        Some (0, uo\<lparr>thread_state := gil_ensure env\<rparr>,
          [EvProcessData cb (map p1 [0..<unat (length_p2 p2)])]))
   \<and> has_callback_error (set_callback_error uo s)
   \<and> callback_error (set_callback_error uo ''Processing canceled by the callback'')
       = ''Processing canceled by the callback''
   \<and> callback_error
        (set_callback_error uo ''An exception occurred in the password callback handler'')
       = ''An exception occurred in the password callback handler''
   \<and> (from_capsule w c = Inr p \<and> heap w p = Some uo0
       \<and> uo = uo0\<lparr>output_fd := fd, thread_state := g\<rparr>
       \<and> P (unrar_data uo0) operation = Callback UCM_PROCESSDATA p1 p2 env k
       \<and> k (- 1) = Done ERAR_UNKNOWN
       \<and> (err_occurred (call_method env) \<or> returned (call_method env) = None
          \<or> (\<exists>v. returned (call_method env) = Some v \<and> PyObject_IsTrue v = 0)) \<longrightarrow>
      (\<exists>w'. process_file w c operation fd g P =
         Some (Inl (UNRARError
           (if err_occurred (call_method env)
            then ''An exception occurred in the password callback handler''
            else ''Processing canceled by the callback'')), w')))"
proof (intro conjI impI)
  note cb = unrar_callback_process_data [OF assms, of p1 env]
  show "has_callback_error (set_callback_error uo s)"
    by (simp add: set_callback_error_def)
  show "callback_error (set_callback_error uo ''Processing canceled by the callback'')
       = ''Processing canceled by the callback''"
    by (simp add: set_callback_error_short)
  show "callback_error
        (set_callback_error uo ''An exception occurred in the password callback handler'')
       = ''An exception occurred in the password callback handler''"
    by (simp add: set_callback_error_short)
  {
    assume "err_occurred (call_method env)"
    then show "unrar_callback UCM_PROCESSDATA uo p1 p2 env =
        Some (- 1,
          (set_callback_error uo ''An exception occurred in the password callback handler'')
            \<lparr>thread_state := gil_ensure env\<rparr>,
          [EvProcessData cb (map p1 [0..<unat (length_p2 p2)])])"
      by (simp add: cb)
  }
  {
    assume "\<not> err_occurred (call_method env)
       \<and> (returned (call_method env) = None
          \<or> (\<exists>v. returned (call_method env) = Some v \<and> PyObject_IsTrue v = 0))"
    then show "unrar_callback UCM_PROCESSDATA uo p1 p2 env =
        Some (- 1,
          (set_callback_error uo ''Processing canceled by the callback'')
            \<lparr>thread_state := gil_ensure env\<rparr>,
          [EvProcessData cb (map p1 [0..<unat (length_p2 p2)])])"
      by (auto simp: cb)
  }
  {
    assume "\<not> err_occurred (call_method env)
       \<and> (\<exists>v. returned (call_method env) = Some v \<and> PyObject_IsTrue v \<noteq> 0)"
    then show "unrar_callback UCM_PROCESSDATA uo p1 p2 env =
        Some (0, uo\<lparr>thread_state := gil_ensure env\<rparr>,
          [EvProcessData cb (map p1 [0..<unat (length_p2 p2)])])"
      by (auto simp: cb)
  }
  {
    assume a: "from_capsule w c = Inr p \<and> heap w p = Some uo0
       \<and> uo = uo0\<lparr>output_fd := fd, thread_state := g\<rparr>
       \<and> P (unrar_data uo0) operation = Callback UCM_PROCESSDATA p1 p2 env k
       \<and> k (- 1) = Done ERAR_UNKNOWN
       \<and> (err_occurred (call_method env) \<or> returned (call_method env) = None
          \<or> (\<exists>v. returned (call_method env) = Some v \<and> PyObject_IsTrue v = 0))"
    define uo' where "uo' = (if err_occurred (call_method env) then
             set_callback_error uo ''An exception occurred in the password callback handler''
           else set_callback_error uo ''Processing canceled by the callback'')
          \<lparr>thread_state := gil_ensure env\<rparr>"
    have cb': "unrar_callback UCM_PROCESSDATA uo p1 p2 env =
        Some (- 1, uo', [EvProcessData cb (map p1 [0..<unat (length_p2 p2)])])"
    proof -
      from a have "err_occurred (call_method env) \<or> returned (call_method env) = None
          \<or> (\<exists>v. returned (call_method env) = Some v \<and> PyObject_IsTrue v = 0)"
        by (elim conjE)
      then show ?thesis by (auto simp: cb uo'_def)
    qed
    have run: "run_native (P (unrar_data uo0) operation) (uo0\<lparr>output_fd := fd, thread_state := g\<rparr>)
        = Some (ERAR_UNKNOWN, uo', [EvProcessData cb (map p1 [0..<unat (length_p2 p2)])])"
    proof -
      from a have "P (unrar_data uo0) operation = Callback UCM_PROCESSDATA p1 p2 env k"
        and "k (- 1) = Done ERAR_UNKNOWN" and "uo0\<lparr>output_fd := fd, thread_state := g\<rparr> = uo"
        by simp_all
      then show ?thesis by (simp add: cb')
    qed
    have flag: "has_callback_error uo'"
      by (simp add: uo'_def set_callback_error_def)
    have msg: "callback_error uo' = (if err_occurred (call_method env)
            then ''An exception occurred in the password callback handler''
            else ''Processing canceled by the callback'')"
      by (simp add: uo'_def set_callback_error_short)
    have "process_file w c operation fd g P =
        Some (Inl (UNRARError (callback_error uo')),
          w\<lparr>heap := (heap w)(p \<mapsto> uo'),
            trace := trace w @ [EvProcessData cb (map p1 [0..<unat (length_p2 p2)])]\<rparr>)"
      using process_file_live [where w = w and c = c and p = p and uo = uo0 and P = P
        and operation = operation and fd = fd and g = g and retval = ERAR_UNKNOWN
        and uo' = uo' and evs = "[EvProcessData cb (map p1 [0..<unat (length_p2 p2)])]"]
        conjunct1 [OF a] conjunct1 [OF conjunct2 [OF a]] run flag
      by (simp add: erar_defs)
    then show "\<exists>w'. process_file w c operation fd g P =
         Some (Inl (UNRARError
           (if err_occurred (call_method env)
            then ''An exception occurred in the password callback handler''
            else ''Processing canceled by the callback'')), w')"
      unfolding msg by blast
  }
qed


lemma sample_data_bytes: "map sample_data [0..<unat (length_p2 3)] = [97, 98, 99]"
  by code_simp

theorem process_data_consumer_witness:
  "callback_object sample_context = Some 5 \<and> \<not> - 1 < sint (output_fd sample_context)
   \<and> 0 \<le> sint (3 :: ulong)
   \<and> unrar_callback UCM_PROCESSDATA sample_context sample_data 3 raising_env =
        Some (- 1, sample_context\<lparr>has_callback_error := True,
           callback_error := ''An exception occurred in the password callback handler''\<rparr>,
          [EvProcessData 5 [97, 98, 99]])
   \<and> unrar_callback UCM_PROCESSDATA sample_context sample_data 3 falsy_env =
        Some (- 1, sample_context\<lparr>has_callback_error := True,
           callback_error := ''Processing canceled by the callback''\<rparr>,
          [EvProcessData 5 [97, 98, 99]])
   \<and> unrar_callback UCM_PROCESSDATA sample_context sample_data 3 sample_env =
        Some (0, sample_context, [EvProcessData 5 [97, 98, 99]])
   \<and> fst (the (process_file sample_world 3 RAR_TEST (- 1) PyGILState_UNLOCKED
         (native_delivers falsy_env)))
       = Inl (UNRARError ''Processing canceled by the callback'')"
proof -
  have h: "callback_object sample_context = Some 5" "\<not> - 1 < sint (output_fd sample_context)"
      "0 \<le> sint (3 :: ulong)"
    by (simp_all add: sample_context_def)
  have w: "from_capsule sample_world 3 = Inr 8" "heap sample_world 8 = Some sample_context"
    by (simp_all add: from_capsule_def sample_world_def PyCapsule_GetPointer_def
        name_matches_def)
  have same: "sample_context = sample_context\<lparr>output_fd := - 1, thread_state := PyGILState_UNLOCKED\<rparr>"
    by (simp add: sample_context_def)
  have r: "err_occurred (call_method raising_env)"
    by (simp add: raising_env_def)
  have f: "\<not> err_occurred (call_method falsy_env)"
      "returned (call_method falsy_env) = Some (PyBool False)" "PyObject_IsTrue (PyBool False) = 0"
      "gil_ensure falsy_env = PyGILState_UNLOCKED"
    by (simp_all add: falsy_env_def sample_env_def PyObject_IsTrue_def)
  have t: "\<not> err_occurred (call_method sample_env)"
      "returned (call_method sample_env) = Some (PyBool True)" "PyObject_IsTrue (PyBool True) \<noteq> 0"
    by (simp_all add: sample_env_def PyObject_IsTrue_def)
  have n: "native_delivers falsy_env (unrar_data sample_context) RAR_TEST
      = Callback UCM_PROCESSDATA sample_data 3 falsy_env
          (\<lambda>ret. Done (if ret = 0 then ERAR_SUCCESS else ERAR_UNKNOWN))"
    by (simp add: native_delivers_def)
  note inst = process_data_consumer [where uo = sample_context and cb = 5 and ?p2.0 = 3
      and ?p1.0 = sample_data and s = "[]", OF h]
  have a1: "unrar_callback UCM_PROCESSDATA sample_context sample_data 3 raising_env =
        Some (- 1, sample_context\<lparr>has_callback_error := True,
           callback_error := ''An exception occurred in the password callback handler''\<rparr>,
          [EvProcessData 5 [97, 98, 99]])"
    using inst [where env = raising_env] r
    by (simp add: sample_data_bytes set_callback_error_def snprintf_def CALLBACK_ERROR_SZ_def
        raising_env_def sample_env_def sample_context_def)
  have a2: "unrar_callback UCM_PROCESSDATA sample_context sample_data 3 falsy_env =
        Some (- 1, sample_context\<lparr>has_callback_error := True,
           callback_error := ''Processing canceled by the callback''\<rparr>,
          [EvProcessData 5 [97, 98, 99]])"
    using inst [where env = falsy_env] f
    by (simp add: sample_data_bytes set_callback_error_def snprintf_def CALLBACK_ERROR_SZ_def
        sample_context_def)
  have a3: "unrar_callback UCM_PROCESSDATA sample_context sample_data 3 sample_env =
        Some (0, sample_context, [EvProcessData 5 [97, 98, 99]])"
    using inst [where env = sample_env] t
    by (simp add: sample_data_bytes sample_env_def sample_context_def)
  have a4: "fst (the (process_file sample_world 3 RAR_TEST (- 1) PyGILState_UNLOCKED
         (native_delivers falsy_env)))
       = Inl (UNRARError ''Processing canceled by the callback'')"
    using inst [where env = falsy_env and w = sample_world and c = 3 and p = 8
        and ?uo0.0 = sample_context and fd = "- 1" and g = PyGILState_UNLOCKED
        and P = "native_delivers falsy_env" and operation = RAR_TEST
        and k = "\<lambda>ret. Done (if ret = 0 then ERAR_SUCCESS else ERAR_UNKNOWN)"]
      w same n f
    by auto
  from h a1 a2 a3 a4 show ?thesis by simp
qed

text \<open>
  A consumer that raises does not give the cancellation message.
\<close>

theorem process_data_consumer_raises_counterexample:
  "map_option (callback_error \<circ> fst \<circ> snd)
     (unrar_callback UCM_PROCESSDATA sample_context sample_data 3 raising_env)
     = Some ''An exception occurred in the password callback handler''
   \<and> map_option (callback_error \<circ> fst \<circ> snd)
     (unrar_callback UCM_PROCESSDATA sample_context sample_data 3 raising_env)
     \<noteq> Some ''Processing canceled by the callback''"
  by (simp add: unrar_callback_def ucm_defs sample_context_def raising_env_def sample_env_def
      set_callback_error_def snprintf_def CALLBACK_ERROR_SZ_def)


subsection \<open>The write loop\<close>

lemma write_all_minus_one:
  "write_all data sz fd ((- 1, err) # rs) = Some (True, [])"
  by (simp add: accepted_def)

lemma write_all_short_write:
  "write_all sample_data 3 7 [(1, 0), (2, 0)] = Some (True, [97, 97, 98])"
  by code_simp

lemma unrar_callback_failed_write:
  "unrar_callback UCM_PROCESSDATA (sample_context\<lparr>output_fd := 7\<rparr>) sample_data 3
        (sample_env\<lparr>write_results := [(- 1, 5)]\<rparr>)
       = Some (0, sample_context\<lparr>output_fd := 7\<rparr>, [EvWrite 7 []])"
  by code_simp

text \<open>
  C2 against the code. Whatever the range and whatever \<^verbatim>\<open>errno\<close>, when \<^verbatim>\<open>write\<close>
  fails (returns -1) the loop returns true at once: -1 read as a \<^verbatim>\<open>size_t\<close> is the
  largest value, so \<^verbatim>\<open>written >= sz\<close> holds. Nothing was written and nothing is retried.
  After a short write the loop writes from the start of the data again: for the bytes
  97, 98, 99 and answers 1 and 2 the descriptor receives 97, then 97, 98. The callback
  bridge therefore reports success and records no pending error for a failed write.
\<close>

theorem write_all_reports_failed_write_as_success:
  "write_all data sz fd ((- 1, err) # rs) = Some (True, [])
   \<and> write_all sample_data 3 7 [(1, 0), (2, 0)] = Some (True, [97, 97, 98])
   \<and> unrar_callback UCM_PROCESSDATA (sample_context\<lparr>output_fd := 7\<rparr>) sample_data 3
        (sample_env\<lparr>write_results := [(- 1, 5)]\<rparr>)
       = Some (0, sample_context\<lparr>output_fd := 7\<rparr>, [EvWrite 7 []])"
  using write_all_minus_one write_all_short_write unrar_callback_failed_write by simp

subsection \<open>The header reader\<close>

lemma AVALs_eq:
  "AVALs items (mem, ans) =
     (if mem < 2 * length items then None
      else Some (mem - 2 * length items, fold (\<lambda>(nm, val) a. a(nm \<mapsto> val)) items ans))"
proof (induction items arbitrary: mem ans)
  case Nil
  then show ?case by simp
next
  case (Cons item items)
  obtain nm val where item: "item = (nm, val)" by (cases item)
  show ?case
    by (auto simp: item AVAL_def Cons.IH)
qed

text \<open>
  C8. In every header that decodes, \<^verbatim>\<open>is_dir\<close> is true exactly when the directory bit
  \<^verbatim>\<open>RHDF_DIRECTORY\<close> of \<^verbatim>\<open>Flags\<close> is set, and \<^verbatim>\<open>redir_name\<close> is present exactly
  when \<^verbatim>\<open>RedirNameSize\<close> is positive; it is then the text of the first
  \<^verbatim>\<open>RedirNameSize\<close> wide characters at \<^verbatim>\<open>RedirName\<close>. With \<^verbatim>\<open>RedirNameSize\<close> zero
  there is no \<^verbatim>\<open>redir_name\<close>.
\<close>

theorem header_to_python_is_dir_redir_name:
  assumes "header_to_python mem fh = Inr d"
  shows "d ''is_dir'' = Some (PyBool (Flags fh AND RHDF_DIRECTORY \<noteq> 0))
    \<and> ((d ''redir_name'' \<noteq> None) = (0 < RedirNameSize fh))
    \<and> (0 < RedirNameSize fh \<longrightarrow>
         (\<exists>buf. RedirName fh = Some buf
            \<and> d ''redir_name'' = Some (PyUnicode (map buf [0..<unat (RedirNameSize fh)]))
            \<and> (\<forall>s. d ''redir_name'' = Some (PyUnicode s) \<longrightarrow> length s = unat (RedirNameSize fh))))
    \<and> (RedirNameSize fh = 0 \<longrightarrow> d ''redir_name'' = None)"
  using assms
  by (auto simp: header_to_python_def AVALs_eq AVAL_def wchar_to_unicode_def word_greater_zero_iff
      split: if_splits sum.splits option.splits prod.splits)

theorem header_to_python_is_dir_redir_name_witness:
  "header_to_python 100 sample_header
     = Inr (case header_to_python 100 sample_header of Inr d \<Rightarrow> d)
   \<and> (case header_to_python 100 sample_header of Inr d \<Rightarrow> d) ''is_dir'' = Some (PyBool True)
   \<and> (case header_to_python 100 sample_header of Inr d \<Rightarrow> d) ''redir_name'' = None
   \<and> header_to_python 100 link_header
     = Inr (case header_to_python 100 link_header of Inr d \<Rightarrow> d)
   \<and> (case header_to_python 100 link_header of Inr d \<Rightarrow> d) ''is_dir'' = Some (PyBool False)
   \<and> (case header_to_python 100 link_header of Inr d \<Rightarrow> d) ''redir_name''
       = Some (PyUnicode [120, 121])"
proof -
  have s: "header_to_python 100 sample_header
     = Inr (case header_to_python 100 sample_header of Inr d \<Rightarrow> d)"
    by (simp add: header_to_python_def AVALs_eq wchar_to_unicode_def sample_header_def)
  have l: "header_to_python 100 link_header
     = Inr (case header_to_python 100 link_header of Inr d \<Rightarrow> d)"
    by (simp add: header_to_python_def AVALs_eq AVAL_def wchar_to_unicode_def link_header_def
        sample_header_def)
  have f: "Flags sample_header AND RHDF_DIRECTORY \<noteq> 0" "RedirNameSize sample_header = 0"
      "\<not> Flags link_header AND RHDF_DIRECTORY \<noteq> 0" "0 < RedirNameSize link_header"
      "RedirName link_header = Some (\<lambda>i. if i = 0 then 120 else 121)"
      "unat (RedirNameSize link_header) = 2"
    by (simp_all add: sample_header_def link_header_def RHDF_DIRECTORY_def)
  have m: "map (\<lambda>i. if i = 0 then 120 else 121 :: wchar) [0..<2] = [120, 121]"
    by code_simp
  from header_to_python_is_dir_redir_name [OF s] header_to_python_is_dir_redir_name [OF l] s l f m
  show ?thesis by auto
qed






end
